theory Spec2Isabelle
  imports Complex_Main
begin

section \<open>The paste server of \<^verbatim>\<open>src/app.js\<close>\<close>

text \<open>
  The program is one Express application: a JSON body parser, a lookup middleware mounted
  on \<^verbatim>\<open>/pastes/:pasteId\<close>, a list route and a create route on \<^verbatim>\<open>/pastes\<close>, a
  not-found middleware and one error handler. Its state is the array \<^verbatim>\<open>pastes\<close> and the
  counter \<^verbatim>\<open>lastPasteId\<close>.

  What is outside the model: the transport (a request is what Express hands to the
  middleware: method, original URL, parsed body) and the output of \<^verbatim>\<open>console.error\<close>.

  Two parts of the platform are modelled on a fragment only, and the theorems that depend
  on them say so in their hypotheses. The counter is an IEEE double in the source and a
  natural number here: the two agree as long as the counter is below \<open>2 ^ 53\<close>, where
  \<^verbatim>\<open>++lastPasteId\<close> is exact. The path parameter is the raw segment here, and in Express
  its \<^verbatim>\<open>decodeURIComponent\<close>: the two agree for a segment without a percent sign.
\<close>

subsection \<open>JavaScript values\<close>

text \<open>
  The parsed request body is a JSON value; \<open>JUndefined\<close> is what reading an absent
  property gives. An object is its list of own properties, each key listed once (a
  lookup takes the first entry of a key).
\<close>

datatype jsval =
    JUndefined
  | JNull
  | JBool bool
  | JNum rat
  | JStr string
  | JArr "jsval list"
  | JObj "(string \<times> jsval) list"

text \<open>The condition of \<^verbatim>\<open>if (text)\<close>: ToBoolean on the values JSON can produce.\<close>

fun truthy :: "jsval \<Rightarrow> bool" where
  "truthy JUndefined = False"
| "truthy JNull = False"
| "truthy (JBool b) = b"
| "truthy (JNum n) = (n \<noteq> 0)"
| "truthy (JStr s) = (s \<noteq> [])"
| "truthy (JArr xs) = True"
| "truthy (JObj kvs) = True"

text \<open>
  An object pattern \<^verbatim>\<open>{ k } = v\<close> throws a TypeError when \<open>v\<close> is \<^verbatim>\<open>null\<close> or
  \<^verbatim>\<open>undefined\<close>, and reads property \<open>k\<close> otherwise. The keys this program reads
  (\<^verbatim>\<open>data\<close>, \<^verbatim>\<open>text\<close>, \<^verbatim>\<open>name\<close>, \<^verbatim>\<open>syntax\<close>, \<^verbatim>\<open>exposure\<close>, \<^verbatim>\<open>expiration\<close>, \<^verbatim>\<open>user_id\<close>)
  are no properties of the prototypes of strings, numbers, booleans or arrays, so only an
  object can have them.
\<close>

fun destructurable :: "jsval \<Rightarrow> bool" where
  "destructurable JUndefined = False"
| "destructurable JNull = False"
| "destructurable v = True"

fun get_prop :: "jsval \<Rightarrow> string \<Rightarrow> jsval" where
  "get_prop (JObj kvs) k = (case map_of kvs k of None \<Rightarrow> JUndefined | Some v \<Rightarrow> v)"
| "get_prop v k = JUndefined"

text \<open>The default of a pattern, \<^verbatim>\<open>= {}\<close>, replaces \<^verbatim>\<open>undefined\<close> and nothing else.\<close>

definition default_empty :: "jsval \<Rightarrow> jsval" where
  "default_empty v = (if v = JUndefined then JObj [] else v)"

subsection \<open>Records, store, requests and responses\<close>

text \<open>
  A paste is the object literal of the create handler: seven properties. The identifier is
  a number, the other six are whatever the request carried. The identifiers the program
  assigns are positive integers; those of the seed, which is not among the sources, are
  taken to be natural numbers as well, and its records to have the same seven properties.
\<close>

record paste =
  p_id :: nat
  p_name :: jsval
  p_syntax :: jsval
  p_exposure :: jsval
  p_expiration :: jsval
  p_text :: jsval
  p_user_id :: jsval

record store =
  pastes :: "paste list"
  lastPasteId :: nat

datatype http_method = GET | HEAD | POST | PUT | PATCH | DELETE | OPTIONS

record request =
  req_method :: http_method
  originalUrl :: string
  req_body :: jsval

text \<open>
  The three JSON bodies the program writes, and the page Express itself would send if no
  layer answered.
\<close>

datatype res_json =
    Data_paste paste
  | Data_list "paste list"
  | Error_json string
  | Express_default

record response =
  res_status :: nat
  res_body :: res_json

text \<open>
  What a middleware hands to \<^verbatim>\<open>next\<close> as an error: a bare string, or an object with
  possibly a \<^verbatim>\<open>status\<close> and possibly a \<^verbatim>\<open>message\<close>.
\<close>

datatype err =
    ErrString string
  | ErrObject "nat option" "string option"

text \<open>
  A middleware ends in one of three ways: it writes the response (and may have changed the
  store), it calls \<^verbatim>\<open>next()\<close>, or it calls \<^verbatim>\<open>next(error)\<close>. Express turns an exception
  thrown by a middleware into \<^verbatim>\<open>next(exception)\<close>.
\<close>

datatype outcome =
    Respond response store
  | Next
  | NextErr err

type_synonym middleware = "request \<Rightarrow> store \<Rightarrow> outcome"

text \<open>
  A TypeError is an object with a \<^verbatim>\<open>message\<close> and no \<^verbatim>\<open>status\<close>. The text of the
  message is the engine's choice; V8 names the first property of the pattern, the source
  text it was destructuring and whether the value was \<^verbatim>\<open>null\<close> or \<^verbatim>\<open>undefined\<close>. For the
  inner pattern, whose value comes through the default, V8 prints the default, \<^verbatim>\<open>{}\<close>.
\<close>

definition destructure_message :: "string \<Rightarrow> string \<Rightarrow> jsval \<Rightarrow> string" where
  "destructure_message property source v =
     ''Cannot destructure property '' @ [CHR 0x27] @ property @ [CHR 0x27] @
     '' of '' @ [CHR 0x27] @ source @ [CHR 0x27] @
     '' as it is '' @ (if v = JNull then ''null'' else ''undefined'') @ ''.''"

definition TypeError :: "string \<Rightarrow> string \<Rightarrow> jsval \<Rightarrow> err" where
  "TypeError property source v = ErrObject None (Some (destructure_message property source v))"

text \<open>The message of the validator's inner pattern when \<^verbatim>\<open>data\<close> is \<^verbatim>\<open>null\<close>.\<close>

definition TypeError_message :: string where
  "TypeError_message = ''Cannot destructure property 'text' of '{}' as it is null.''"

subsection \<open>Path matching\<close>

text \<open>
  Express matches the path name (the URL up to the query string or the fragment), without
  regard to case, allowing one trailing slash; a path mounted with \<^verbatim>\<open>use\<close> matches as a
  prefix ending at a segment boundary, and \<^verbatim>\<open>:pasteId\<close> is one non-empty segment.
\<close>

definition pathname :: "string \<Rightarrow> string" where
  "pathname url = takeWhile (\<lambda>c. c \<noteq> CHR ''?'' \<and> c \<noteq> CHR ''#'') url"

text \<open>
  Express reads the path name with \<^verbatim>\<open>parseurl\<close>, which cuts the URL at the first question
  mark itself when the URL starts with a slash and has, after it, no tab, line feed, form
  feed, carriage return, space, number sign or no-break space; otherwise it hands the URL
  to \<^verbatim>\<open>url.parse\<close>, which also rewrites backslashes and trims white space. This is the
  test for the first case.
\<close>

definition parseurl_fast :: "string \<Rightarrow> bool" where
  "parseurl_fast url =
     (case url of
        [] \<Rightarrow> False
      | c # cs \<Rightarrow>
          c = CHR ''/'' \<and>
          list_all (\<lambda>d. d \<notin> set [CHR 0x09, CHR 0x0A, CHR 0x0C, CHR 0x0D, CHR '' '',
                                    CHR ''#'', CHR 0xA0]) cs)"

fun split_slash :: "string \<Rightarrow> string list" where
  "split_slash [] = [[]]"
| "split_slash (c # cs) =
     (if c = CHR ''/'' then [] # split_slash cs
      else (case split_slash cs of
              [] \<Rightarrow> [[c]]
            | seg # segs \<Rightarrow> (c # seg) # segs))"

definition lower :: "char \<Rightarrow> char" where
  "lower c =
     (case map_of (zip ''ABCDEFGHIJKLMNOPQRSTUVWXYZ'' ''abcdefghijklmnopqrstuvwxyz'') c of
        None \<Rightarrow> c
      | Some d \<Rightarrow> d)"

text \<open>\<^verbatim>\<open>"/pastes/:pasteId"\<close> as mounted by \<^verbatim>\<open>app.use\<close>: the parameter, if the path matches.\<close>

fun match_pasteId_segs :: "string list \<Rightarrow> string option" where
  "match_pasteId_segs (lead # p # pasteId # rest) =
     (if lead = [] \<and> map lower p = ''pastes'' \<and> pasteId \<noteq> [] then Some pasteId else None)"
| "match_pasteId_segs segs = None"

definition match_pasteId :: "string \<Rightarrow> string option" where
  "match_pasteId url = match_pasteId_segs (split_slash (pathname url))"

text \<open>\<^verbatim>\<open>"/pastes"\<close> as a route of \<^verbatim>\<open>app.get\<close> and \<^verbatim>\<open>app.post\<close>.\<close>

fun match_pastes_segs :: "string list \<Rightarrow> bool" where
  "match_pastes_segs [lead, p] = (lead = [] \<and> map lower p = ''pastes'')"
| "match_pastes_segs [lead, p, trail] = (lead = [] \<and> map lower p = ''pastes'' \<and> trail = [])"
| "match_pastes_segs segs = False"

definition match_pastes :: "string \<Rightarrow> bool" where
  "match_pastes url = match_pastes_segs (split_slash (pathname url))"

text \<open>A route registered with \<^verbatim>\<open>app.get\<close> also serves HEAD requests.\<close>

definition handles_get :: "http_method \<Rightarrow> bool" where
  "handles_get m = (m = GET \<or> m = HEAD)"

subsection \<open>The middleware and handlers\<close>

text \<open>
  \<^verbatim>\<open>bodyHasTextProperty\<close> (lines 48 to 57):
  \<^verbatim>\<open>const { data: { text } = {} } = req.body; if (text) return next(); next({status: 400, ...})\<close>
\<close>

definition bodyHasTextProperty :: middleware where
  "bodyHasTextProperty req st =
     (if \<not> destructurable (req_body req)
      then NextErr (TypeError ''data'' ''req.body'' (req_body req))
      else let data = default_empty (get_prop (req_body req) ''data'') in
        if \<not> destructurable data then NextErr (TypeError ''text'' ''{}'' data)
        else let text = get_prop data ''text'' in
          if truthy text then Next
          else NextErr (ErrObject (Some 400) (Some ''A 'text' property is required.'')))"

text \<open>
  The lookup middleware (lines 69 to 78). \<^verbatim>\<open>Number\<close> is the built-in coercion of the
  language and is a parameter \<open>num\<close> of the model: \<open>num s = Some n\<close> when
  \<^verbatim>\<open>Number(s)\<close> is the natural number \<open>n\<close>, and \<open>None\<close> when it is anything else (NaN, a
  negative or fractional number, an infinity), which no identifier equals.
  \<^verbatim>\<open>Array.prototype.find\<close> returns the first match; a found paste is an object, so
  \<^verbatim>\<open>if (foundPaste)\<close> holds exactly when there is one. The parameter is the matched
  segment as written, which is what Express passes when the segment has no percent sign.
\<close>

definition pasteLookup :: "(string \<Rightarrow> nat option) \<Rightarrow> string \<Rightarrow> store \<Rightarrow> outcome" where
  "pasteLookup num pasteId st =
     (case List.find (\<lambda>paste. Some (p_id paste) = num pasteId) (pastes st) of
        Some foundPaste \<Rightarrow> Respond \<lparr>res_status = 200, res_body = Data_paste foundPaste\<rparr> st
      | None \<Rightarrow> NextErr (ErrObject (Some 404) (Some (''Paste id not found: '' @ pasteId))))"

definition use_pasteId :: "(string \<Rightarrow> nat option) \<Rightarrow> middleware" where
  "use_pasteId num req st =
     (case match_pasteId (originalUrl req) of
        None \<Rightarrow> Next
      | Some pasteId \<Rightarrow> pasteLookup num pasteId st)"

text \<open>The list handler (lines 80 to 82).\<close>

definition listPastes :: middleware where
  "listPastes req st = Respond \<lparr>res_status = 200, res_body = Data_list (pastes st)\<rparr> st"

text \<open>
  The create handler (lines 89 to 102): the same pattern as the validator, with six
  properties read; \<^verbatim>\<open>++lastPasteId\<close>; \<^verbatim>\<open>pastes.push(newPaste)\<close>; status 201.
  The increment is that of the natural numbers, which is the source's while the counter is
  below \<open>2 ^ 53\<close>; from there on a double no longer moves by one.
\<close>

definition createPaste :: middleware where
  "createPaste req st =
     (if \<not> destructurable (req_body req)
      then NextErr (TypeError ''data'' ''req.body'' (req_body req))
      else let data = default_empty (get_prop (req_body req) ''data'') in
        if \<not> destructurable data then NextErr (TypeError ''name'' ''{}'' data)
        else
          let newPaste = \<lparr>p_id = lastPasteId st + 1,
                          p_name = get_prop data ''name'',
                          p_syntax = get_prop data ''syntax'',
                          p_exposure = get_prop data ''exposure'',
                          p_expiration = get_prop data ''expiration'',
                          p_text = get_prop data ''text'',
                          p_user_id = get_prop data ''user_id''\<rparr>
          in Respond \<lparr>res_status = 201, res_body = Data_paste newPaste\<rparr>
               \<lparr>pastes = pastes st @ [newPaste], lastPasteId = lastPasteId st + 1\<rparr>)"

text \<open>The not-found middleware (lines 109 to 111) hands a bare string to \<^verbatim>\<open>next\<close>.\<close>

definition notFound :: middleware where
  "notFound req st = NextErr (ErrString (''Not found: '' @ originalUrl req))"

text \<open>
  The error handler (lines 129 to 133):
  \<^verbatim>\<open>const { status = 500, message = "Something went wrong!" } = error\<close>.
  A string has neither property.
\<close>

fun errorHandler :: "err \<Rightarrow> response" where
  "errorHandler (ErrString s) =
     \<lparr>res_status = 500, res_body = Error_json ''Something went wrong!''\<rparr>"
| "errorHandler (ErrObject status message) =
     \<lparr>res_status = (case status of None \<Rightarrow> 500 | Some s \<Rightarrow> s),
      res_body = Error_json (case message of None \<Rightarrow> ''Something went wrong!'' | Some m \<Rightarrow> m)\<rparr>"

subsection \<open>The application\<close>

text \<open>
  Layers run in the order of registration; \<^verbatim>\<open>next()\<close> passes to the following one, and
  the handlers of one route are a stack of their own.
\<close>

fun dispatch :: "middleware list \<Rightarrow> middleware" where
  "dispatch [] req st = Next"
| "dispatch (layer # layers) req st =
     (case layer req st of
        Next \<Rightarrow> dispatch layers req st
      | out \<Rightarrow> out)"

definition get_pastes :: middleware where
  "get_pastes req st =
     (if handles_get (req_method req) \<and> match_pastes (originalUrl req)
      then dispatch [listPastes] req st else Next)"

definition post_pastes :: middleware where
  "post_pastes req st =
     (if req_method req = POST \<and> match_pastes (originalUrl req)
      then dispatch [bodyHasTextProperty, createPaste] req st else Next)"

text \<open>
  One request: the first layer that does not pass on decides. An error goes to the error
  handler, which leaves the store alone.
\<close>

definition app :: "(string \<Rightarrow> nat option) \<Rightarrow> request \<Rightarrow> store \<Rightarrow> response \<times> store" where
  "app num req st =
     (case dispatch [use_pasteId num, get_pastes, post_pastes, notFound] req st of
        Respond res st' \<Rightarrow> (res, st')
      | NextErr error \<Rightarrow> (errorHandler error, st)
      | Next \<Rightarrow> (\<lparr>res_status = 404, res_body = Express_default\<rparr>, st))"

text \<open>
  The process: the store starts from the seed (line 84 computes the counter with
  \<^verbatim>\<open>reduce\<close> from 0), and requests are served one after the other.
  The seed (\<^verbatim>\<open>./data/pastes-data\<close>) is a parameter: any list of pastes. With an empty
  seed the counter starts at 0.
\<close>

definition init :: "paste list \<Rightarrow> store" where
  "init seed =
     \<lparr>pastes = seed,
      lastPasteId = foldl (\<lambda>maxId paste. max maxId (p_id paste)) 0 seed\<rparr>"

fun serve :: "(string \<Rightarrow> nat option) \<Rightarrow> request list \<Rightarrow> store \<Rightarrow> response list \<times> store" where
  "serve num [] st = ([], st)"
| "serve num (req # reqs) st =
     (case app num req st of
        (res, st') \<Rightarrow> (case serve num reqs st' of
                        (ress, st'') \<Rightarrow> (res # ress, st'')))"

text \<open>The records the server reported as created: the bodies of its 201 responses.\<close>

fun created :: "response list \<Rightarrow> paste list" where
  "created [] = []"
| "created (res # ress) =
     (if res_status res = 201
      then (case res_body res of
              Data_paste p \<Rightarrow> p # created ress
            | other \<Rightarrow> created ress)
      else created ress)"

text \<open>
  For concrete runs, the decimal fragment of \<^verbatim>\<open>Number\<close>: a non-empty string of digits
  is read as the number it writes. It stands for the parameter \<open>num\<close> in the examples.
\<close>

definition digit_val :: "char \<Rightarrow> nat option" where
  "digit_val c = map_of (zip ''0123456789'' [0, 1, 2, 3, 4, 5, 6, 7, 8, 9]) c"

fun digits_val :: "nat \<Rightarrow> string \<Rightarrow> nat option" where
  "digits_val acc [] = Some acc"
| "digits_val acc (c # cs) =
     (case digit_val c of
        None \<Rightarrow> None
      | Some d \<Rightarrow> digits_val (10 * acc + d) cs)"

definition Number_digits :: "string \<Rightarrow> nat option" where
  "Number_digits s = (if s = [] then None else digits_val 0 s)"

text \<open>A seed for the examples: two records, with a gap between their identifiers.\<close>

definition example_seed :: "paste list" where
  "example_seed =
     [\<lparr>p_id = 1, p_name = JStr ''Hello'', p_syntax = JStr ''None'', p_exposure = JStr ''private'',
       p_expiration = JNum 10, p_text = JStr ''Hello World!'', p_user_id = JNum 1\<rparr>,
      \<lparr>p_id = 3, p_name = JStr ''Query'', p_syntax = JStr ''SQL'', p_exposure = JStr ''public'',
       p_expiration = JNum 24, p_text = JStr ''SELECT 1'', p_user_id = JNum 2\<rparr>]"

text \<open>
  A run for the examples: a creation, a listing, a creation that fails validation and a
  creation with a property the record has no place for; then the responses and the store
  it ends in. A second, shorter run creates nothing.
\<close>

definition example_requests :: "request list" where
  "example_requests =
     [\<lparr>req_method = POST, originalUrl = ''/pastes'',
       req_body = JObj [(''data'', JObj [(''text'', JStr ''hello'')])]\<rparr>,
      \<lparr>req_method = GET, originalUrl = ''/pastes'', req_body = JObj []\<rparr>,
      \<lparr>req_method = POST, originalUrl = ''/pastes'', req_body = JObj [(''data'', JObj [])]\<rparr>,
      \<lparr>req_method = POST, originalUrl = ''/pastes'',
       req_body = JObj [(''data'', JObj [(''name'', JStr ''n''), (''text'', JStr ''again''),
                                         (''colour'', JStr ''red'')])]\<rparr>]"

definition example_responses :: "response list" where
  "example_responses =
     [\<lparr>res_status = 201, res_body = Data_paste
         \<lparr>p_id = 4, p_name = JUndefined, p_syntax = JUndefined, p_exposure = JUndefined,
          p_expiration = JUndefined, p_text = JStr ''hello'', p_user_id = JUndefined\<rparr>\<rparr>,
      \<lparr>res_status = 200, res_body = Data_list (example_seed @
         [\<lparr>p_id = 4, p_name = JUndefined, p_syntax = JUndefined, p_exposure = JUndefined,
           p_expiration = JUndefined, p_text = JStr ''hello'', p_user_id = JUndefined\<rparr>])\<rparr>,
      \<lparr>res_status = 400, res_body = Error_json ''A 'text' property is required.''\<rparr>,
      \<lparr>res_status = 201, res_body = Data_paste
         \<lparr>p_id = 5, p_name = JStr ''n'', p_syntax = JUndefined, p_exposure = JUndefined,
          p_expiration = JUndefined, p_text = JStr ''again'', p_user_id = JUndefined\<rparr>\<rparr>]"

definition example_store :: store where
  "example_store =
     \<lparr>pastes = example_seed @
        [\<lparr>p_id = 4, p_name = JUndefined, p_syntax = JUndefined, p_exposure = JUndefined,
          p_expiration = JUndefined, p_text = JStr ''hello'', p_user_id = JUndefined\<rparr>,
         \<lparr>p_id = 5, p_name = JStr ''n'', p_syntax = JUndefined, p_exposure = JUndefined,
          p_expiration = JUndefined, p_text = JStr ''again'', p_user_id = JUndefined\<rparr>],
      lastPasteId = 5\<rparr>"

definition example_between :: "request list" where
  "example_between =
     [\<lparr>req_method = GET, originalUrl = ''/pastes/3'', req_body = JObj []\<rparr>,
      \<lparr>req_method = POST, originalUrl = ''/pastes'', req_body = JObj [(''data'', JObj [])]\<rparr>]"

definition example_between_responses :: "response list" where
  "example_between_responses =
     [\<lparr>res_status = 200, res_body = Data_paste (example_seed ! 1)\<rparr>,
      \<lparr>res_status = 400, res_body = Error_json ''A 'text' property is required.''\<rparr>]"

text \<open>
  The records that the first and the last request of the run create when each is served
  directly from the seed.
\<close>

definition hello_paste :: paste where
  "hello_paste =
     \<lparr>p_id = 4, p_name = JUndefined, p_syntax = JUndefined, p_exposure = JUndefined,
      p_expiration = JUndefined, p_text = JStr ''hello'', p_user_id = JUndefined\<rparr>"

definition again_paste :: paste where
  "again_paste =
     \<lparr>p_id = 4, p_name = JStr ''n'', p_syntax = JUndefined, p_exposure = JUndefined,
      p_expiration = JUndefined, p_text = JStr ''again'', p_user_id = JUndefined\<rparr>"

section \<open>Properties\<close>

subsection \<open>What each route does\<close>

lemma match_pastes_segs_not_pasteId:
  "match_pastes_segs segs \<Longrightarrow> match_pasteId_segs segs = None"
  by (induction segs rule: match_pastes_segs.induct) auto

lemma match_pastes_not_pasteId: "match_pastes url \<Longrightarrow> match_pasteId url = None"
  by (simp add: match_pastes_def match_pasteId_def match_pastes_segs_not_pasteId)

text \<open>
  A path written \<^verbatim>\<open>/pastes/\<close> followed by one segment (no slash, no query, no fragment)
  matches the lookup, and that segment is the parameter.
\<close>

lemma split_slash_plain: "CHR ''/'' \<notin> set s \<Longrightarrow> split_slash s = [s]"
  by (induction s) auto

lemma pathname_plain:
  assumes "CHR ''?'' \<notin> set s" and "CHR ''#'' \<notin> set s"
  shows "pathname (''/pastes/'' @ s) = ''/pastes/'' @ s"
proof -
  from assms have "takeWhile (\<lambda>c. c \<noteq> CHR ''?'' \<and> c \<noteq> CHR ''#'') s = s"
    by (auto simp add: takeWhile_eq_all_conv)
  then show ?thesis by (simp add: pathname_def)
qed

lemma match_pasteId_plain:
  assumes "s \<noteq> []" and "CHR ''/'' \<notin> set s" and "CHR ''?'' \<notin> set s"
    and "CHR ''#'' \<notin> set s"
  shows "match_pasteId (''/pastes/'' @ s) = Some s"
proof -
  from assms(3,4) have p: "pathname (''/pastes/'' @ s) = ''/pastes/'' @ s"
    by (rule pathname_plain)
  from assms(2) have q: "split_slash (''/pastes/'' @ s) = [[], ''pastes'', s]"
    by (simp add: split_slash_plain)
  have "match_pasteId_segs [[], ''pastes'', s] = Some s"
    using assms(1) by (simp add: lower_def)
  then show ?thesis
    unfolding match_pasteId_def p q .
qed

lemma app_lookup:
  "match_pasteId (originalUrl req) = Some pasteId \<Longrightarrow>
   app num req st =
     (case List.find (\<lambda>paste. Some (p_id paste) = num pasteId) (pastes st) of
        Some foundPaste \<Rightarrow> (\<lparr>res_status = 200, res_body = Data_paste foundPaste\<rparr>, st)
      | None \<Rightarrow> (\<lparr>res_status = 404, res_body = Error_json (''Paste id not found: '' @ pasteId)\<rparr>, st))"
  by (simp add: app_def use_pasteId_def pasteLookup_def split: option.splits)

lemma app_list:
  "handles_get (req_method req) \<Longrightarrow> match_pastes (originalUrl req) \<Longrightarrow>
   app num req st = (\<lparr>res_status = 200, res_body = Data_list (pastes st)\<rparr>, st)"
  by (simp add: app_def use_pasteId_def match_pastes_not_pasteId get_pastes_def listPastes_def)

lemma app_post:
  "req_method req = POST \<Longrightarrow> match_pastes (originalUrl req) \<Longrightarrow>
   app num req st =
     (case bodyHasTextProperty req st of
        Next \<Rightarrow> (case createPaste req st of
                   Respond res st' \<Rightarrow> (res, st')
                 | NextErr error \<Rightarrow> (errorHandler error, st)
                 | Next \<Rightarrow> (errorHandler (ErrString (''Not found: '' @ originalUrl req)), st))
      | NextErr error \<Rightarrow> (errorHandler error, st)
      | Respond res st' \<Rightarrow> (res, st'))"
  by (simp add: app_def use_pasteId_def match_pastes_not_pasteId get_pastes_def handles_get_def
      post_pastes_def notFound_def split: outcome.splits)

lemma app_other:
  "match_pasteId (originalUrl req) = None \<Longrightarrow>
   \<not> (handles_get (req_method req) \<and> match_pastes (originalUrl req)) \<Longrightarrow>
   \<not> (req_method req = POST \<and> match_pastes (originalUrl req)) \<Longrightarrow>
   app num req st = (\<lparr>res_status = 500, res_body = Error_json ''Something went wrong!''\<rparr>, st)"
  by (auto simp add: app_def use_pasteId_def get_pastes_def post_pastes_def notFound_def)

lemma find_split:
  "List.find P xs = Some x \<Longrightarrow>
   \<exists>before after. xs = before @ x # after \<and> P x \<and> (\<forall>y \<in> set before. \<not> P y)"
proof (induction xs)
  case Nil
  then show ?case by simp
next
  case (Cons a xs)
  show ?case
  proof (cases "P a")
    case True
    with Cons.prems have "a = x" by simp
    with True have "a # xs = [] @ x # xs \<and> P x \<and> (\<forall>y \<in> set []. \<not> P y)" by simp
    then show ?thesis by blast
  next
    case False
    with Cons.prems have "List.find P xs = Some x" by simp
    from Cons.IH [OF this] obtain before after
      where "xs = before @ x # after" and "P x" and "\<forall>y \<in> set before. \<not> P y" by blast
    with False have "a # xs = (a # before) @ x # after \<and> P x \<and> (\<forall>y \<in> set (a # before). \<not> P y)"
      by simp
    then show ?thesis by blast
  qed
qed

subsection \<open>The store along a run\<close>

text \<open>
  A request either leaves the store as it was and does not answer 201, or it is a creation:
  it answers 201 with a record whose identifier is the counter plus one, and appends it.
  Along a run the store is therefore the starting list followed by the created records,
  whose identifiers count up from the counter.
\<close>

lemma bodyHasTextProperty_cases:
  "bodyHasTextProperty req st = Next \<or>
   (\<exists>message. bodyHasTextProperty req st = NextErr (ErrObject None (Some message))) \<or>
   bodyHasTextProperty req st = NextErr (ErrObject (Some 400) (Some ''A 'text' property is required.''))"
  by (simp add: bodyHasTextProperty_def Let_def TypeError_def)

lemma createPaste_cases:
  "(\<exists>message. createPaste req st = NextErr (ErrObject None (Some message))) \<or>
   (\<exists>new. p_id new = lastPasteId st + 1 \<and>
      createPaste req st = Respond \<lparr>res_status = 201, res_body = Data_paste new\<rparr>
        \<lparr>pastes = pastes st @ [new], lastPasteId = lastPasteId st + 1\<rparr>)"
  by (simp add: createPaste_def Let_def TypeError_def)

lemma app_cases:
  "(snd (app num req st) = st \<and> res_status (fst (app num req st)) \<noteq> 201) \<or>
   (\<exists>new. p_id new = lastPasteId st + 1 \<and>
      app num req st = (\<lparr>res_status = 201, res_body = Data_paste new\<rparr>,
        \<lparr>pastes = pastes st @ [new], lastPasteId = lastPasteId st + 1\<rparr>))"
proof (cases "match_pasteId (originalUrl req)")
  case (Some pasteId)
  then show ?thesis
    by (simp add: app_lookup split: option.splits)
next
  case None
  show ?thesis
  proof (cases "match_pastes (originalUrl req)")
    case False
    with None show ?thesis by (simp add: app_other)
  next
    case True
    show ?thesis
    proof (cases "req_method req = POST")
      case True
      from app_post [OF True \<open>match_pastes (originalUrl req)\<close>] have a: "app num req st =
        (case bodyHasTextProperty req st of
          Next \<Rightarrow> (case createPaste req st of
                   Respond res st' \<Rightarrow> (res, st')
                 | NextErr error \<Rightarrow> (errorHandler error, st)
                 | Next \<Rightarrow> (errorHandler (ErrString (''Not found: '' @ originalUrl req)), st))
        | NextErr error \<Rightarrow> (errorHandler error, st)
        | Respond res st' \<Rightarrow> (res, st'))" .
      from bodyHasTextProperty_cases [of req st]
      consider (ok) "bodyHasTextProperty req st = Next"
        | (thrown) message where
            "bodyHasTextProperty req st = NextErr (ErrObject None (Some message))"
        | (invalid) "bodyHasTextProperty req st =
            NextErr (ErrObject (Some 400) (Some ''A 'text' property is required.''))"
        by blast
      then show ?thesis
      proof cases
        case ok
        from createPaste_cases [of req st] show ?thesis
        proof
          assume "\<exists>message. createPaste req st = NextErr (ErrObject None (Some message))"
          with ok show ?thesis by (auto simp add: a)
        next
          assume "\<exists>new. p_id new = lastPasteId st + 1 \<and>
            createPaste req st = Respond \<lparr>res_status = 201, res_body = Data_paste new\<rparr>
              \<lparr>pastes = pastes st @ [new], lastPasteId = lastPasteId st + 1\<rparr>"
          then obtain new where "p_id new = lastPasteId st + 1"
            and "createPaste req st = Respond \<lparr>res_status = 201, res_body = Data_paste new\<rparr>
              \<lparr>pastes = pastes st @ [new], lastPasteId = lastPasteId st + 1\<rparr>" by blast
          with ok have "p_id new = lastPasteId st + 1 \<and>
            app num req st = (\<lparr>res_status = 201, res_body = Data_paste new\<rparr>,
              \<lparr>pastes = pastes st @ [new], lastPasteId = lastPasteId st + 1\<rparr>)"
            by (simp add: a)
          then show ?thesis by blast
        qed
      next
        case thrown
        then show ?thesis by (simp add: a)
      next
        case invalid
        then show ?thesis by (simp add: a)
      qed
    next
      case False
      show ?thesis
      proof (cases "handles_get (req_method req)")
        case True
        with \<open>match_pastes (originalUrl req)\<close> show ?thesis by (simp add: app_list)
      next
        case False
        with None \<open>req_method req \<noteq> POST\<close> show ?thesis by (simp add: app_other)
      qed
    qed
  qed
qed

lemma upt_step: "[Suc l ..< Suc l + Suc n] = Suc l # [Suc (Suc l) ..< Suc (Suc l) + n]"
proof -
  have "[Suc l ..< Suc l + Suc n] = Suc l # [Suc (Suc l) ..< Suc l + Suc n]"
    by (rule upt_conv_Cons) simp
  moreover have "Suc l + Suc n = Suc (Suc l) + n" by simp
  ultimately show ?thesis by (simp only:)
qed

lemma serve_store:
  "serve num reqs st = (ress, st') \<Longrightarrow>
   pastes st' = pastes st @ created ress \<and>
   lastPasteId st' = lastPasteId st + length (created ress) \<and>
   map p_id (created ress) = [Suc (lastPasteId st) ..< Suc (lastPasteId st) + length (created ress)] \<and>
   length (created ress) = length (filter (\<lambda>res. res_status res = 201) ress)"
proof (induction reqs arbitrary: st ress st')
  case Nil
  then show ?case by simp
next
  case (Cons req reqs)
  obtain res st1 where a: "app num req st = (res, st1)" by (cases "app num req st")
  obtain ress1 st2 where s: "serve num reqs st1 = (ress1, st2)" by (cases "serve num reqs st1")
  from Cons.prems a s have r: "ress = res # ress1" and e: "st' = st2" by simp_all
  from Cons.IH [OF s]
  have ih1: "pastes st2 = pastes st1 @ created ress1"
    and ih2: "lastPasteId st2 = lastPasteId st1 + length (created ress1)"
    and ih3: "map p_id (created ress1) =
      [Suc (lastPasteId st1) ..< Suc (lastPasteId st1) + length (created ress1)]"
    and ih4: "length (created ress1) = length (filter (\<lambda>res. res_status res = 201) ress1)"
    by blast+
  from app_cases [of num req st] show ?case
  proof
    assume "snd (app num req st) = st \<and> res_status (fst (app num req st)) \<noteq> 201"
    with a have "st1 = st" and "res_status res \<noteq> 201" by simp_all
    with ih1 ih2 ih3 ih4 r e show ?thesis by simp
  next
    assume "\<exists>new. p_id new = lastPasteId st + 1 \<and>
      app num req st = (\<lparr>res_status = 201, res_body = Data_paste new\<rparr>,
        \<lparr>pastes = pastes st @ [new], lastPasteId = lastPasteId st + 1\<rparr>)"
    then obtain new where n: "p_id new = Suc (lastPasteId st)"
      and "app num req st = (\<lparr>res_status = 201, res_body = Data_paste new\<rparr>,
        \<lparr>pastes = pastes st @ [new], lastPasteId = lastPasteId st + 1\<rparr>)" by auto
    with a have res: "res = \<lparr>res_status = 201, res_body = Data_paste new\<rparr>"
      and st1: "st1 = \<lparr>pastes = pastes st @ [new], lastPasteId = lastPasteId st + 1\<rparr>" by simp_all
    from st1 have p1: "pastes st1 = pastes st @ [new]" and l1: "lastPasteId st1 = Suc (lastPasteId st)"
      by simp_all
    from res r have c: "created ress = new # created ress1" by simp
    from res r have f: "filter (\<lambda>res. res_status res = 201) ress
        = res # filter (\<lambda>res. res_status res = 201) ress1" by simp
    have g1: "pastes st' = pastes st @ created ress"
      using ih1 p1 c e by simp
    have g2: "lastPasteId st' = lastPasteId st + length (created ress)"
      using ih2 l1 c e by simp
    have "map p_id (created ress) = Suc (lastPasteId st) #
        [Suc (Suc (lastPasteId st)) ..< Suc (Suc (lastPasteId st)) + length (created ress1)]"
      using ih3 l1 c n by simp
    also have "\<dots> = [Suc (lastPasteId st) ..< Suc (lastPasteId st) + Suc (length (created ress1))]"
      by (rule upt_step [symmetric])
    also have "Suc (length (created ress1)) = length (created ress)"
      using c by simp
    finally have g3: "map p_id (created ress) =
        [Suc (lastPasteId st) ..< Suc (lastPasteId st) + length (created ress)]" .
    have g4: "length (created ress) = length (filter (\<lambda>res. res_status res = 201) ress)"
      using ih4 c f by simp
    from g1 g2 g3 g4 show ?thesis by blast
  qed
qed

lemma foldl_max_fold:
  "foldl (\<lambda>maxId paste. max maxId (p_id paste)) m seed = fold max (map p_id seed) m"
  by (induction seed arbitrary: m) (simp_all add: max.commute)

lemma foldl_max_Max:
  "foldl (\<lambda>maxId paste. max maxId (p_id paste)) m seed = Max (insert m (p_id ` set seed))"
proof -
  have "Max (set (m # map p_id seed)) = fold max (map p_id seed) m"
    by (rule Max.set_eq_fold)
  then show ?thesis by (simp add: foldl_max_fold)
qed

lemma init_lastPasteId:
  "seed \<noteq> [] \<Longrightarrow> lastPasteId (init seed) = Max (p_id ` set seed)"
proof -
  assume "seed \<noteq> []"
  then have ne: "p_id ` set seed \<noteq> {}" by simp
  have "Max (insert 0 (p_id ` set seed)) = max 0 (Max (p_id ` set seed))"
    using ne by (simp add: Max_insert)
  then show ?thesis by (simp add: init_def foldl_max_Max)
qed

lemma init_bound: "paste \<in> set seed \<Longrightarrow> p_id paste \<le> lastPasteId (init seed)"
  by (simp add: init_def foldl_max_Max)

lemma serve_without_creation:
  assumes "serve num reqs st = (ress, st')"
    and "\<forall>res \<in> set ress. res_status res \<noteq> 201"
  shows "st' = st"
proof -
  from assms(2) have "filter (\<lambda>res. res_status res = 201) ress = []"
    by (simp add: filter_empty_conv)
  with serve_store [OF assms(1)] have "created ress = []" by simp
  with serve_store [OF assms(1)] have "pastes st' = pastes st" and "lastPasteId st' = lastPasteId st"
    by simp_all
  then show ?thesis by simp
qed

lemma find_first:
  "\<forall>y \<in> set before. \<not> P y \<Longrightarrow> P x \<Longrightarrow> List.find P (before @ x # after) = Some x"
  by (induction before) simp_all

lemma reachable_bound:
  assumes "serve num reqs (init seed) = (ress, st)"
    and "paste \<in> set (pastes st)"
  shows "p_id paste \<le> lastPasteId st"
proof -
  from serve_store [OF assms(1)]
  have p: "pastes st = seed @ created ress"
    and l: "lastPasteId st = lastPasteId (init seed) + length (created ress)"
    and i: "map p_id (created ress) =
      [Suc (lastPasteId (init seed)) ..< Suc (lastPasteId (init seed)) + length (created ress)]"
    by (simp_all add: init_def)
  from assms(2) p consider "paste \<in> set seed" | "paste \<in> set (created ress)" by auto
  then show ?thesis
  proof cases
    case 1
    from init_bound [OF this] l show ?thesis by simp
  next
    case 2
    then have "p_id paste \<in> set (map p_id (created ress))" by simp
    with i have "p_id paste \<in>
      set [Suc (lastPasteId (init seed)) ..< Suc (lastPasteId (init seed)) + length (created ress)]"
      by simp
    then have "p_id paste < Suc (lastPasteId (init seed)) + length (created ress)"
      by (simp only: set_upt atLeastLessThan_iff)
    with l show ?thesis by linarith
  qed
qed

lemma createPaste_object:
  assumes "req_body req = JObj kvs" and "map_of kvs ''data'' = Some (JObj dkvs)"
  shows "createPaste req st =
     Respond \<lparr>res_status = 201, res_body = Data_paste
        \<lparr>p_id = lastPasteId st + 1,
         p_name = get_prop (JObj dkvs) ''name'',
         p_syntax = get_prop (JObj dkvs) ''syntax'',
         p_exposure = get_prop (JObj dkvs) ''exposure'',
         p_expiration = get_prop (JObj dkvs) ''expiration'',
         p_text = get_prop (JObj dkvs) ''text'',
         p_user_id = get_prop (JObj dkvs) ''user_id''\<rparr>\<rparr>
       \<lparr>pastes = pastes st @
          [\<lparr>p_id = lastPasteId st + 1,
            p_name = get_prop (JObj dkvs) ''name'',
            p_syntax = get_prop (JObj dkvs) ''syntax'',
            p_exposure = get_prop (JObj dkvs) ''exposure'',
            p_expiration = get_prop (JObj dkvs) ''expiration'',
            p_text = get_prop (JObj dkvs) ''text'',
            p_user_id = get_prop (JObj dkvs) ''user_id''\<rparr>],
        lastPasteId = lastPasteId st + 1\<rparr>"
proof -
  from assms have "default_empty (get_prop (req_body req) ''data'') = JObj dkvs"
    by (simp add: default_empty_def)
  with assms(1) show ?thesis
    by (simp add: createPaste_def Let_def)
qed

lemma bodyHasTextProperty_object:
  assumes "req_body req = JObj kvs" and "map_of kvs ''data'' = Some (JObj dkvs)"
  shows "bodyHasTextProperty req st =
     (if truthy (get_prop (JObj dkvs) ''text'') then Next
      else NextErr (ErrObject (Some 400) (Some ''A 'text' property is required.'')))"
proof -
  from assms have "default_empty (get_prop (req_body req) ''data'') = JObj dkvs"
    by (simp add: default_empty_def)
  with assms(1) show ?thesis
    by (simp add: bodyHasTextProperty_def Let_def)
qed

lemma app_create:
  assumes "req_method req = POST" and "match_pastes (originalUrl req)"
    and "req_body req = JObj kvs" and "map_of kvs ''data'' = Some (JObj dkvs)"
    and "truthy (get_prop (JObj dkvs) ''text'')"
  shows "app num req st =
     (\<lparr>res_status = 201, res_body = Data_paste
        \<lparr>p_id = lastPasteId st + 1,
         p_name = get_prop (JObj dkvs) ''name'',
         p_syntax = get_prop (JObj dkvs) ''syntax'',
         p_exposure = get_prop (JObj dkvs) ''exposure'',
         p_expiration = get_prop (JObj dkvs) ''expiration'',
         p_text = get_prop (JObj dkvs) ''text'',
         p_user_id = get_prop (JObj dkvs) ''user_id''\<rparr>\<rparr>,
      \<lparr>pastes = pastes st @
          [\<lparr>p_id = lastPasteId st + 1,
            p_name = get_prop (JObj dkvs) ''name'',
            p_syntax = get_prop (JObj dkvs) ''syntax'',
            p_exposure = get_prop (JObj dkvs) ''exposure'',
            p_expiration = get_prop (JObj dkvs) ''expiration'',
            p_text = get_prop (JObj dkvs) ''text'',
            p_user_id = get_prop (JObj dkvs) ''user_id''\<rparr>],
        lastPasteId = lastPasteId st + 1\<rparr>)"
proof -
  from bodyHasTextProperty_object [OF assms(3,4)] assms(5)
  have "bodyHasTextProperty req st = Next" by simp
  with assms(1,2) createPaste_object [OF assms(3,4), of st] show ?thesis
    by (simp add: app_post)
qed

subsection \<open>Examples of matching and coercion\<close>

lemma example_match: "match_pasteId ''/pastes/3'' = Some ''3''"
  by (simp add: match_pasteId_def pathname_def lower_def)

lemma example_match_missing: "match_pasteId ''/pastes/999999'' = Some ''999999''"
  by (simp add: match_pasteId_def pathname_def lower_def)

lemma Number_digits_3: "Number_digits ''3'' = Some 3"
  by (simp add: Number_digits_def digit_val_def)

lemma Number_digits_999999: "Number_digits ''999999'' = Some 999999"
  by (simp add: Number_digits_def digit_val_def)

lemma match_pastes_example: "match_pastes ''/pastes''"
  by (simp add: match_pastes_def pathname_def lower_def)

lemma init_example: "init example_seed = \<lparr>pastes = example_seed, lastPasteId = 3\<rparr>"
  by (simp add: init_def example_seed_def)

lemma example_run:
  "serve Number_digits example_requests (init example_seed) = (example_responses, example_store)"
  by (simp add: example_requests_def example_responses_def example_store_def init_example
      app_post app_list handles_get_def match_pastes_example
      bodyHasTextProperty_def createPaste_def default_empty_def Let_def)


lemma created_example:
  "created example_responses =
     [\<lparr>p_id = 4, p_name = JUndefined, p_syntax = JUndefined, p_exposure = JUndefined,
       p_expiration = JUndefined, p_text = JStr ''hello'', p_user_id = JUndefined\<rparr>,
      \<lparr>p_id = 5, p_name = JStr ''n'', p_syntax = JUndefined, p_exposure = JUndefined,
       p_expiration = JUndefined, p_text = JStr ''again'', p_user_id = JUndefined\<rparr>]"
  by (simp add: example_responses_def)

lemma example_between_run:
  "serve Number_digits example_between example_store =
     (example_between_responses, example_store)"
  by (simp add: example_between_def example_between_responses_def example_store_def
      app_lookup example_match Number_digits_3 example_seed_def
      app_post match_pastes_example bodyHasTextProperty_def default_empty_def Let_def)

lemma example_create:
  "app Number_digits (hd example_requests) (init example_seed) =
     (\<lparr>res_status = 201, res_body = Data_paste hello_paste\<rparr>,
      \<lparr>pastes = example_seed @ [hello_paste], lastPasteId = 4\<rparr>)"
  by (simp add: example_requests_def hello_paste_def init_example
      app_post match_pastes_example bodyHasTextProperty_def createPaste_def default_empty_def
      Let_def)

lemma example_later_run:
  "serve Number_digits (tl example_requests)
      \<lparr>pastes = example_seed @ [hello_paste], lastPasteId = 4\<rparr> =
     (tl example_responses, example_store)"
  by (simp add: example_requests_def example_responses_def example_store_def hello_paste_def
      app_post app_list handles_get_def match_pastes_example
      bodyHasTextProperty_def createPaste_def default_empty_def Let_def)

lemma example_match_4: "match_pasteId ''/pastes/4'' = Some ''4''"
  by (simp add: match_pasteId_def pathname_def lower_def)

lemma Number_digits_4: "Number_digits ''4'' = Some 4"
  by (simp add: Number_digits_def digit_val_def)

subsection \<open>The unmatched request\<close>

text \<open>
  Claim C1: a request that no route matches, such as \<^verbatim>\<open>GET /unknown/path\<close>, is to get
  status 404 and the body \<^verbatim>\<open>{error: "Not found: /unknown/path"}\<close>.
  The program does not do this. The not-found middleware passes a bare string to
  \<^verbatim>\<open>next\<close>; the error handler reads \<^verbatim>\<open>status\<close> and \<^verbatim>\<open>message\<close> from it, finds
  neither, and answers 500 with the default message. The lookup middleware, by contrast,
  passes an object with both. The theorem evaluates the program at that request.
\<close>

theorem not_found_is_500:
  "app num \<lparr>req_method = GET, originalUrl = ''/unknown/path'', req_body = JObj []\<rparr> st =
     (\<lparr>res_status = 500, res_body = Error_json ''Something went wrong!''\<rparr>, st)"
  by (rule app_other)
     (simp_all add: match_pasteId_def match_pastes_def pathname_def)

subsection \<open>Looking a paste up\<close>

text \<open>
  Claim C2: for \<^verbatim>\<open>GET /pastes/:pasteId\<close>, if some stored paste has the identifier that
  the parameter coerces to, the answer is 200 with that paste (the first such one in the
  store), written by the lookup middleware itself, and the store is unchanged; otherwise the
  answer is 404 with \<^verbatim>\<open>Paste id not found: \<close> followed by the parameter.
  The URL is one that \<^verbatim>\<open>parseurl\<close> cuts itself, and the parameter has no percent sign, so
  that the segment as written is the parameter the middleware receives.
\<close>

theorem lookup_found_or_404:
  assumes "req_method req = GET"
    and "match_pasteId (originalUrl req) = Some pasteId"
    and "parseurl_fast (originalUrl req)"
    and "CHR ''%'' \<notin> set pasteId"
  shows "((\<exists>paste \<in> set (pastes st). Some (p_id paste) = num pasteId) \<longrightarrow>
           (\<exists>before foundPaste after.
              pastes st = before @ foundPaste # after \<and>
              (\<forall>paste \<in> set before. Some (p_id paste) \<noteq> num pasteId) \<and>
              Some (p_id foundPaste) = num pasteId \<and>
              use_pasteId num req st =
                Respond \<lparr>res_status = 200, res_body = Data_paste foundPaste\<rparr> st \<and>
              app num req st = (\<lparr>res_status = 200, res_body = Data_paste foundPaste\<rparr>, st))) \<and>
         (\<not> (\<exists>paste \<in> set (pastes st). Some (p_id paste) = num pasteId) \<longrightarrow>
           app num req st =
             (\<lparr>res_status = 404, res_body = Error_json (''Paste id not found: '' @ pasteId)\<rparr>, st))"
proof (cases "List.find (\<lambda>paste. Some (p_id paste) = num pasteId) (pastes st)")
  case None
  then have "\<not> (\<exists>paste \<in> set (pastes st). Some (p_id paste) = num pasteId)"
    by (simp add: find_None_iff)
  moreover from None assms(2) have "app num req st =
      (\<lparr>res_status = 404, res_body = Error_json (''Paste id not found: '' @ pasteId)\<rparr>, st)"
    by (simp add: app_lookup)
  ultimately show ?thesis by blast
next
  case (Some foundPaste)
  from find_split [OF Some] obtain before after
    where sp: "pastes st = before @ foundPaste # after"
      and eq: "Some (p_id foundPaste) = num pasteId"
      and firstm: "\<forall>paste \<in> set before. Some (p_id paste) \<noteq> num pasteId" by blast
  from Some assms(2) have u: "use_pasteId num req st =
      Respond \<lparr>res_status = 200, res_body = Data_paste foundPaste\<rparr> st"
    by (simp add: use_pasteId_def pasteLookup_def)
  from Some assms(2) have a: "app num req st =
      (\<lparr>res_status = 200, res_body = Data_paste foundPaste\<rparr>, st)"
    by (simp add: app_lookup)
  from sp eq have ex: "\<exists>paste \<in> set (pastes st). Some (p_id paste) = num pasteId"
    by auto
  have "\<exists>before foundPaste after.
      pastes st = before @ foundPaste # after \<and>
      (\<forall>paste \<in> set before. Some (p_id paste) \<noteq> num pasteId) \<and>
      Some (p_id foundPaste) = num pasteId \<and>
      use_pasteId num req st =
        Respond \<lparr>res_status = 200, res_body = Data_paste foundPaste\<rparr> st \<and>
      app num req st = (\<lparr>res_status = 200, res_body = Data_paste foundPaste\<rparr>, st)"
    using sp eq firstm u a by (intro exI conjI)
  with ex show ?thesis by simp
qed

theorem lookup_found_or_404_witness:
  "parseurl_fast ''/pastes/3'' \<and> parseurl_fast ''/pastes/999999'' \<and>
   app Number_digits \<lparr>req_method = GET, originalUrl = ''/pastes/3'', req_body = JObj []\<rparr>
      (init example_seed) =
     (\<lparr>res_status = 200, res_body = Data_paste (example_seed ! 1)\<rparr>, init example_seed) \<and>
   app Number_digits \<lparr>req_method = GET, originalUrl = ''/pastes/999999'', req_body = JObj []\<rparr>
      (init example_seed) =
     (\<lparr>res_status = 404, res_body = Error_json ''Paste id not found: 999999''\<rparr>,
      init example_seed)"
proof -
  let ?hit = "\<lparr>req_method = GET, originalUrl = ''/pastes/3'', req_body = JObj []\<rparr>"
  let ?miss = "\<lparr>req_method = GET, originalUrl = ''/pastes/999999'', req_body = JObj []\<rparr>"
  have g1: "req_method ?hit = GET" and g2: "req_method ?miss = GET" by simp_all
  have m1: "match_pasteId (originalUrl ?hit) = Some ''3''" by (simp add: example_match)
  have m2: "match_pasteId (originalUrl ?miss) = Some ''999999''"
    by (simp add: example_match_missing)
  have f1: "parseurl_fast (originalUrl ?hit)" and f2: "parseurl_fast (originalUrl ?miss)"
    by (simp_all add: parseurl_fast_def)
  have p1: "CHR ''%'' \<notin> set ''3''" and p2: "CHR ''%'' \<notin> set ''999999''"
    by simp_all
  have ex: "\<exists>paste \<in> set (pastes (init example_seed)). Some (p_id paste) = Number_digits ''3''"
    by (simp add: Number_digits_3 init_def example_seed_def)
  have nex: "\<not> (\<exists>paste \<in> set (pastes (init example_seed)).
      Some (p_id paste) = Number_digits ''999999'')"
    by (simp add: Number_digits_999999 init_def example_seed_def)
  from lookup_found_or_404 [OF g1 m1 f1 p1, where st = "init example_seed" and num = Number_digits] ex
  obtain foundPaste where f: "foundPaste \<in> set (pastes (init example_seed))"
    and i: "Some (p_id foundPaste) = Number_digits ''3''"
    and a: "app Number_digits ?hit (init example_seed) =
      (\<lparr>res_status = 200, res_body = Data_paste foundPaste\<rparr>, init example_seed)"
    by auto
  from f i have "foundPaste = example_seed ! 1"
    by (auto simp add: Number_digits_3 init_def example_seed_def)
  with a have h: "app Number_digits ?hit (init example_seed) =
      (\<lparr>res_status = 200, res_body = Data_paste (example_seed ! 1)\<rparr>, init example_seed)"
    by simp
  from lookup_found_or_404 [OF g2 m2 f2 p2, where st = "init example_seed" and num = Number_digits] nex
  have "app Number_digits ?miss (init example_seed) =
      (\<lparr>res_status = 404, res_body = Error_json (''Paste id not found: '' @ ''999999'')\<rparr>,
       init example_seed)"
    by blast
  with h f1 f2 show ?thesis by simp
qed



subsection \<open>Validation of a creation\<close>

text \<open>
  Claim C3: a \<^verbatim>\<open>POST /pastes\<close> whose body has no truthy \<^verbatim>\<open>data.text\<close> is to get status
  400 with \<^verbatim>\<open>A 'text' property is required.\<close>, also when there is no data object at all,
  which must not crash. The default \<^verbatim>\<open>= {}\<close> of the pattern covers an absent
  \<^verbatim>\<open>data\<close> only: with \<^verbatim>\<open>{"data": null}\<close> the pattern throws, and the answer is 500
  with the text of the exception. The theorem evaluates the program at that request.
\<close>

theorem null_data_is_500:
  "app num \<lparr>req_method = POST, originalUrl = ''/pastes'',
            req_body = JObj [(''data'', JNull)]\<rparr> st =
     (\<lparr>res_status = 500, res_body = Error_json TypeError_message\<rparr>, st)"
proof -
  have m: "match_pastes ''/pastes''"
    by (simp add: match_pastes_def pathname_def lower_def)
  have "bodyHasTextProperty \<lparr>req_method = POST, originalUrl = ''/pastes'',
            req_body = JObj [(''data'', JNull)]\<rparr> st = NextErr (TypeError ''text'' ''{}'' JNull)"
    by (simp add: bodyHasTextProperty_def default_empty_def)
  with m show ?thesis
    by (simp add: app_post TypeError_def destructure_message_def TypeError_message_def)
qed

text \<open>
  Away from \<^verbatim>\<open>null\<close> the validator does what is asked: a body whose \<^verbatim>\<open>data\<close> is absent,
  or is any value but \<^verbatim>\<open>null\<close> without a truthy \<^verbatim>\<open>text\<close>, gets the 400, and a truthy
  \<^verbatim>\<open>text\<close> passes control on.
\<close>

lemma bodyHasTextProperty_valid:
  assumes "destructurable (req_body req)"
    and "get_prop (req_body req) ''data'' \<noteq> JNull"
  shows "bodyHasTextProperty req st =
     (if truthy (get_prop (default_empty (get_prop (req_body req) ''data'')) ''text'')
      then Next
      else NextErr (ErrObject (Some 400) (Some ''A 'text' property is required.'')))"
proof -
  from assms(2) have "destructurable (default_empty (get_prop (req_body req) ''data''))"
    by (cases "get_prop (req_body req) ''data''") (simp_all add: default_empty_def)
  with assms(1) show ?thesis
    by (simp add: bodyHasTextProperty_def Let_def)
qed

lemma post_without_text_is_400:
  assumes "req_method req = POST" and "match_pastes (originalUrl req)"
    and "destructurable (req_body req)"
    and "get_prop (req_body req) ''data'' \<noteq> JNull"
    and "\<not> truthy (get_prop (default_empty (get_prop (req_body req) ''data'')) ''text'')"
  shows "app num req st =
     (\<lparr>res_status = 400, res_body = Error_json ''A 'text' property is required.''\<rparr>, st)"
  using assms by (simp add: app_post bodyHasTextProperty_valid)

subsection \<open>The error handler\<close>

text \<open>
  Claim C6: an error that is a plain string, or an object with neither \<^verbatim>\<open>status\<close> nor
  \<^verbatim>\<open>message\<close>, is answered with status 500 and \<^verbatim>\<open>{error: "Something went wrong!"}\<close>;
  an error that carries both is answered with its status and its message.
\<close>

theorem error_responder_defaults:
  "errorHandler (ErrString s) =
     \<lparr>res_status = 500, res_body = Error_json ''Something went wrong!''\<rparr> \<and>
   errorHandler (ErrObject None None) =
     \<lparr>res_status = 500, res_body = Error_json ''Something went wrong!''\<rparr> \<and>
   errorHandler (ErrObject (Some status) (Some message)) =
     \<lparr>res_status = status, res_body = Error_json message\<rparr>"
  by simp

subsection \<open>Creating a paste\<close>

text \<open>
  Claim C5: a \<^verbatim>\<open>POST /pastes\<close> whose \<^verbatim>\<open>data.text\<close> is truthy answers 201 with the new
  record; its text is the submitted text, its identifier is greater than that of every
  record stored so far, and from then on, whatever requests follow, a
  \<^verbatim>\<open>GET /pastes/<id>\<close> whose parameter coerces to that identifier answers 200 with this
  record. The counter is below \<open>2 ^ 53\<close> at the creation and has not passed \<open>2 ^ 53\<close> at
  the retrieval: the range in which the counter of the source moves by one.
\<close>

theorem create_then_retrieve:
  assumes "serve num reqs (init seed) = (ress, st)"
    and "req_method req = POST"
    and "match_pastes (originalUrl req)"
    and "req_body req = JObj kvs"
    and "map_of kvs ''data'' = Some (JObj dkvs)"
    and "map_of dkvs ''text'' = Some text"
    and "truthy text"
    and "lastPasteId st < 2 ^ 53"
  shows "\<exists>newRecord st'.
           app num req st = (\<lparr>res_status = 201, res_body = Data_paste newRecord\<rparr>, st') \<and>
           p_text newRecord = text \<and>
           (\<forall>paste \<in> set (pastes st). p_id paste < p_id newRecord) \<and>
           (\<forall>later lress st'' url pasteId b.
              serve num later st' = (lress, st'') \<longrightarrow>
              lastPasteId st'' \<le> 2 ^ 53 \<longrightarrow>
              match_pasteId url = Some pasteId \<longrightarrow>
              num pasteId = Some (p_id newRecord) \<longrightarrow>
              app num \<lparr>req_method = GET, originalUrl = url, req_body = b\<rparr> st'' =
                (\<lparr>res_status = 200, res_body = Data_paste newRecord\<rparr>, st''))"
proof -
  let ?new = "\<lparr>p_id = lastPasteId st + 1,
         p_name = get_prop (JObj dkvs) ''name'',
         p_syntax = get_prop (JObj dkvs) ''syntax'',
         p_exposure = get_prop (JObj dkvs) ''exposure'',
         p_expiration = get_prop (JObj dkvs) ''expiration'',
         p_text = get_prop (JObj dkvs) ''text'',
         p_user_id = get_prop (JObj dkvs) ''user_id''\<rparr>"
  let ?st' = "\<lparr>pastes = pastes st @ [?new], lastPasteId = lastPasteId st + 1\<rparr>"
  from assms(6) have t: "get_prop (JObj dkvs) ''text'' = text" by simp
  with assms(7) have "truthy (get_prop (JObj dkvs) ''text'')" by simp
  from app_create [OF assms(2,3,4,5) this]
  have a: "app num req st = (\<lparr>res_status = 201, res_body = Data_paste ?new\<rparr>, ?st')" .
  have tx: "p_text ?new = text" using t by simp
  have old: "\<forall>paste \<in> set (pastes st). p_id paste < p_id ?new"
  proof
    fix paste assume "paste \<in> set (pastes st)"
    from reachable_bound [OF assms(1) this] show "p_id paste < p_id ?new" by simp
  qed
  have get: "app num \<lparr>req_method = GET, originalUrl = url, req_body = b\<rparr> st'' =
        (\<lparr>res_status = 200, res_body = Data_paste ?new\<rparr>, st'')"
    if run: "serve num later ?st' = (lress, st'')"
      and "lastPasteId st'' \<le> 2 ^ 53"
      and m: "match_pasteId url = Some pasteId"
      and n: "num pasteId = Some (p_id ?new)"
    for later lress st'' url pasteId b
  proof -
    from serve_store [OF run]
    have p: "pastes st'' = pastes st @ ?new # created lress" by simp
    from old n have "\<forall>paste \<in> set (pastes st). \<not> Some (p_id paste) = num pasteId"
      by auto
    moreover from n have "Some (p_id ?new) = num pasteId" by simp
    ultimately have "List.find (\<lambda>paste. Some (p_id paste) = num pasteId)
        (pastes st @ ?new # created lress) = Some ?new"
      by (rule find_first)
    with p have f: "List.find (\<lambda>paste. Some (p_id paste) = num pasteId) (pastes st'') = Some ?new"
      by simp
    have "match_pasteId (originalUrl \<lparr>req_method = GET, originalUrl = url, req_body = b\<rparr>)
        = Some pasteId" using m by simp
    from app_lookup [OF this, of num st''] f show ?thesis by simp
  qed
  from a tx old get show ?thesis by blast
qed

theorem create_then_retrieve_witness:
  "lastPasteId (init example_seed) < 2 ^ 53 \<and> lastPasteId example_store \<le> 2 ^ 53 \<and>
   app Number_digits (hd example_requests) (init example_seed) =
     (\<lparr>res_status = 201, res_body = Data_paste hello_paste\<rparr>,
      \<lparr>pastes = example_seed @ [hello_paste], lastPasteId = 4\<rparr>) \<and>
   p_text hello_paste = JStr ''hello'' \<and>
   list_all (\<lambda>paste. p_id paste < p_id hello_paste) example_seed \<and>
   app Number_digits \<lparr>req_method = GET, originalUrl = ''/pastes/4'', req_body = JObj []\<rparr>
      example_store =
     (\<lparr>res_status = 200, res_body = Data_paste hello_paste\<rparr>, example_store)"
proof -
  let ?st1 = "\<lparr>pastes = example_seed @ [hello_paste], lastPasteId = 4\<rparr>"
  have r: "serve Number_digits [] (init example_seed) = ([], init example_seed)" by simp
  have p: "req_method (hd example_requests) = POST"
    and m: "match_pastes (originalUrl (hd example_requests))"
    and b: "req_body (hd example_requests) = JObj [(''data'', JObj [(''text'', JStr ''hello'')])]"
    by (simp_all add: example_requests_def match_pastes_example)
  have d: "map_of [(''data'', JObj [(''text'', JStr ''hello'')])] ''data''
      = Some (JObj [(''text'', JStr ''hello'')])" by simp
  have t: "map_of [(''text'', JStr ''hello'')] ''text'' = Some (JStr ''hello'')" by simp
  have tr: "truthy (JStr ''hello'')" by simp
  have lt: "lastPasteId (init example_seed) < 2 ^ 53" by (simp add: init_example)
  have le: "lastPasteId example_store \<le> 2 ^ 53" by (simp add: example_store_def)
  from create_then_retrieve [OF r p m b d t tr lt]
  obtain newRecord st' where
    a: "app Number_digits (hd example_requests) (init example_seed) =
        (\<lparr>res_status = 201, res_body = Data_paste newRecord\<rparr>, st')"
    and tx: "p_text newRecord = JStr ''hello''"
    and old: "\<forall>paste \<in> set (pastes (init example_seed)). p_id paste < p_id newRecord"
    and get: "\<And>later lress st'' url pasteId b.
      serve Number_digits later st' = (lress, st'') \<Longrightarrow>
      lastPasteId st'' \<le> 2 ^ 53 \<Longrightarrow>
      match_pasteId url = Some pasteId \<Longrightarrow>
      Number_digits pasteId = Some (p_id newRecord) \<Longrightarrow>
      app Number_digits \<lparr>req_method = GET, originalUrl = url, req_body = b\<rparr> st'' =
        (\<lparr>res_status = 200, res_body = Data_paste newRecord\<rparr>, st'')"
    by blast
  from a example_create have n: "newRecord = hello_paste" and s: "st' = ?st1" by simp_all
  have i: "Number_digits ''4'' = Some (p_id hello_paste)"
    by (simp add: Number_digits_4 hello_paste_def)
  from get [of "tl example_requests" "tl example_responses" example_store "''/pastes/4'' " "''4''"]
    example_later_run le example_match_4 i n s
  have g: "app Number_digits \<lparr>req_method = GET, originalUrl = ''/pastes/4'', req_body = JObj []\<rparr>
      example_store =
     (\<lparr>res_status = 200, res_body = Data_paste hello_paste\<rparr>, example_store)"
    by simp
  from old n have o: "list_all (\<lambda>paste. p_id paste < p_id hello_paste) example_seed"
    by (simp add: init_def list_all_iff)
  from tx n have "p_text hello_paste = JStr ''hello''" by simp
  with example_create o g lt le show ?thesis by blast
qed

text \<open>
  Claim C10: the created record has the seven properties \<^verbatim>\<open>id\<close>, \<^verbatim>\<open>name\<close>, \<^verbatim>\<open>syntax\<close>,
  \<^verbatim>\<open>exposure\<close>, \<^verbatim>\<open>expiration\<close>, \<^verbatim>\<open>text\<close>, \<^verbatim>\<open>user_id\<close> and nothing else: each of the
  six is what \<^verbatim>\<open>data\<close> has under that name, so two bodies that agree on the six create
  the same record whatever else they carry; the record is appended, and every record
  stored before is still in its place, unchanged.
\<close>

theorem create_keeps_seven_fields:
  assumes "req_method req = POST"
    and "match_pastes (originalUrl req)"
    and "req_body req = JObj kvs"
    and "map_of kvs ''data'' = Some (JObj dkvs)"
    and "truthy (get_prop (JObj dkvs) ''text'')"
  shows "\<exists>newPaste.
           p_id newPaste = lastPasteId st + 1 \<and>
           p_name newPaste = get_prop (JObj dkvs) ''name'' \<and>
           p_syntax newPaste = get_prop (JObj dkvs) ''syntax'' \<and>
           p_exposure newPaste = get_prop (JObj dkvs) ''exposure'' \<and>
           p_expiration newPaste = get_prop (JObj dkvs) ''expiration'' \<and>
           p_text newPaste = get_prop (JObj dkvs) ''text'' \<and>
           p_user_id newPaste = get_prop (JObj dkvs) ''user_id'' \<and>
           app num req st =
             (\<lparr>res_status = 201, res_body = Data_paste newPaste\<rparr>,
              \<lparr>pastes = pastes st @ [newPaste], lastPasteId = lastPasteId st + 1\<rparr>) \<and>
           (\<forall>i < length (pastes st). pastes (snd (app num req st)) ! i = pastes st ! i) \<and>
           (\<forall>kvs' dkvs'.
              map_of kvs' ''data'' = Some (JObj dkvs') \<longrightarrow>
              (\<forall>k \<in> {''name'', ''syntax'', ''exposure'', ''expiration'', ''text'', ''user_id''}.
                 map_of dkvs' k = map_of dkvs k) \<longrightarrow>
              app num (req\<lparr>req_body := JObj kvs'\<rparr>) st = app num req st)"
proof -
  let ?new = "\<lparr>p_id = lastPasteId st + 1,
         p_name = get_prop (JObj dkvs) ''name'',
         p_syntax = get_prop (JObj dkvs) ''syntax'',
         p_exposure = get_prop (JObj dkvs) ''exposure'',
         p_expiration = get_prop (JObj dkvs) ''expiration'',
         p_text = get_prop (JObj dkvs) ''text'',
         p_user_id = get_prop (JObj dkvs) ''user_id''\<rparr>"
  from app_create [OF assms]
  have a: "app num req st = (\<lparr>res_status = 201, res_body = Data_paste ?new\<rparr>,
      \<lparr>pastes = pastes st @ [?new], lastPasteId = lastPasteId st + 1\<rparr>)" .
  have frame: "\<forall>i < length (pastes st). pastes (snd (app num req st)) ! i = pastes st ! i"
    by (simp add: a nth_append)
  have extra: "app num (req\<lparr>req_body := JObj kvs'\<rparr>) st = app num req st"
    if d: "map_of kvs' ''data'' = Some (JObj dkvs')"
      and same: "\<forall>k \<in> {''name'', ''syntax'', ''exposure'', ''expiration'', ''text'', ''user_id''}.
                 map_of dkvs' k = map_of dkvs k"
    for kvs' dkvs'
  proof -
    from same have e: "get_prop (JObj dkvs') ''name'' = get_prop (JObj dkvs) ''name''"
      "get_prop (JObj dkvs') ''syntax'' = get_prop (JObj dkvs) ''syntax''"
      "get_prop (JObj dkvs') ''exposure'' = get_prop (JObj dkvs) ''exposure''"
      "get_prop (JObj dkvs') ''expiration'' = get_prop (JObj dkvs) ''expiration''"
      "get_prop (JObj dkvs') ''text'' = get_prop (JObj dkvs) ''text''"
      "get_prop (JObj dkvs') ''user_id'' = get_prop (JObj dkvs) ''user_id''"
      by simp_all
    have p: "req_method (req\<lparr>req_body := JObj kvs'\<rparr>) = POST"
      and m: "match_pastes (originalUrl (req\<lparr>req_body := JObj kvs'\<rparr>))"
      and b: "req_body (req\<lparr>req_body := JObj kvs'\<rparr>) = JObj kvs'"
      using assms(1,2) by simp_all
    from assms(5) e have t: "truthy (get_prop (JObj dkvs') ''text'')" by simp
    from app_create [OF p m b d t, of num st] e a show ?thesis by simp
  qed
  have "p_id ?new = lastPasteId st + 1 \<and>
           p_name ?new = get_prop (JObj dkvs) ''name'' \<and>
           p_syntax ?new = get_prop (JObj dkvs) ''syntax'' \<and>
           p_exposure ?new = get_prop (JObj dkvs) ''exposure'' \<and>
           p_expiration ?new = get_prop (JObj dkvs) ''expiration'' \<and>
           p_text ?new = get_prop (JObj dkvs) ''text'' \<and>
           p_user_id ?new = get_prop (JObj dkvs) ''user_id''" by simp
  with a frame extra show ?thesis by blast
qed

theorem create_keeps_seven_fields_witness:
  "app Number_digits (example_requests ! 3) (init example_seed) =
     (\<lparr>res_status = 201, res_body = Data_paste again_paste\<rparr>,
      \<lparr>pastes = example_seed @ [again_paste], lastPasteId = 4\<rparr>) \<and>
   app Number_digits
      ((example_requests ! 3)\<lparr>req_body :=
          JObj [(''data'', JObj [(''name'', JStr ''n''), (''text'', JStr ''again'')])]\<rparr>)
      (init example_seed) =
     app Number_digits (example_requests ! 3) (init example_seed)"
proof -
  let ?dkvs = "[(''name'', JStr ''n''), (''text'', JStr ''again''), (''colour'', JStr ''red'')]"
  let ?plain = "[(''name'', JStr ''n''), (''text'', JStr ''again'')]"
  have p: "req_method (example_requests ! 3) = POST"
    and m: "match_pastes (originalUrl (example_requests ! 3))"
    and b: "req_body (example_requests ! 3) = JObj [(''data'', JObj ?dkvs)]"
    by (simp_all add: example_requests_def match_pastes_example)
  have d: "map_of [(''data'', JObj ?dkvs)] ''data'' = Some (JObj ?dkvs)" by simp
  have t: "truthy (get_prop (JObj ?dkvs) ''text'')" by simp
  from create_keeps_seven_fields [where num = Number_digits and st = "init example_seed", OF p m b d t]
  obtain newPaste where
    f: "p_id newPaste = lastPasteId (init example_seed) + 1"
      "p_name newPaste = get_prop (JObj ?dkvs) ''name''"
      "p_syntax newPaste = get_prop (JObj ?dkvs) ''syntax''"
      "p_exposure newPaste = get_prop (JObj ?dkvs) ''exposure''"
      "p_expiration newPaste = get_prop (JObj ?dkvs) ''expiration''"
      "p_text newPaste = get_prop (JObj ?dkvs) ''text''"
      "p_user_id newPaste = get_prop (JObj ?dkvs) ''user_id''"
    and a: "app Number_digits (example_requests ! 3) (init example_seed) =
        (\<lparr>res_status = 201, res_body = Data_paste newPaste\<rparr>,
         \<lparr>pastes = pastes (init example_seed) @ [newPaste],
          lastPasteId = lastPasteId (init example_seed) + 1\<rparr>)"
    and extra: "\<And>kvs' dkvs'.
        map_of kvs' ''data'' = Some (JObj dkvs') \<Longrightarrow>
        (\<forall>k \<in> {''name'', ''syntax'', ''exposure'', ''expiration'', ''text'', ''user_id''}.
           map_of dkvs' k = map_of ?dkvs k) \<Longrightarrow>
        app Number_digits ((example_requests ! 3)\<lparr>req_body := JObj kvs'\<rparr>) (init example_seed)
          = app Number_digits (example_requests ! 3) (init example_seed)"
    by blast
  from f have n: "newPaste = again_paste"
    by (cases newPaste) (simp add: again_paste_def init_example)
  from a n have a': "app Number_digits (example_requests ! 3) (init example_seed) =
     (\<lparr>res_status = 201, res_body = Data_paste again_paste\<rparr>,
      \<lparr>pastes = example_seed @ [again_paste], lastPasteId = 4\<rparr>)"
    by (simp add: init_example)
  have d': "map_of [(''data'', JObj ?plain)] ''data'' = Some (JObj ?plain)" by simp
  have same: "\<forall>k \<in> {''name'', ''syntax'', ''exposure'', ''expiration'', ''text'', ''user_id''}.
           map_of ?plain k = map_of ?dkvs k" by simp
  from extra [OF d' same] a' show ?thesis by simp
qed

subsection \<open>Identifiers of created records\<close>

text \<open>
  Claim C4: creating N records in sequence gives N distinct, strictly increasing
  identifiers; the first is the largest identifier of the seed plus one, and each later
  one is its predecessor plus one. The run may contain any other requests in between; the
  seed has at least one record, and the identifiers stay within \<open>2 ^ 53\<close>, the range in
  which the counter of the source moves by one.
\<close>

theorem created_ids_count_up:
  assumes "seed \<noteq> []"
    and "serve num reqs (init seed) = (ress, st)"
    and "Max (p_id ` set seed) + length (created ress) \<le> 2 ^ 53"
  shows "map p_id (created ress) =
           [Max (p_id ` set seed) + 1 ..< Max (p_id ` set seed) + 1 + length (created ress)] \<and>
         distinct (map p_id (created ress)) \<and>
         sorted_wrt (<) (map p_id (created ress))"
proof -
  from serve_store [OF assms(2)] init_lastPasteId [OF assms(1)]
  have e: "map p_id (created ress) =
      [Max (p_id ` set seed) + 1 ..< Max (p_id ` set seed) + 1 + length (created ress)]"
    by simp
  have "distinct [Max (p_id ` set seed) + 1 ..< Max (p_id ` set seed) + 1 + length (created ress)]"
    by (rule distinct_upt)
  moreover
  have "sorted_wrt (<)
      [Max (p_id ` set seed) + 1 ..< Max (p_id ` set seed) + 1 + length (created ress)]"
    by (rule sorted_wrt_upt)
  ultimately show ?thesis using e by simp
qed

theorem created_ids_count_up_witness:
  "example_seed \<noteq> [] \<and> Max (p_id ` set example_seed) = 3 \<and>
   Max (p_id ` set example_seed) + length (created example_responses) \<le> 2 ^ 53 \<and>
   map p_id (created (fst (serve Number_digits example_requests (init example_seed)))) = [4, 5]"
proof -
  have ne: "example_seed \<noteq> []" by (simp add: example_seed_def)
  have mx: "Max (p_id ` set example_seed) = 3" by (simp add: example_seed_def)
  have len: "length (created example_responses) = 2" by (simp add: created_example)
  have bound: "Max (p_id ` set example_seed) + length (created example_responses) \<le> 2 ^ 53"
    by (simp only: mx len) simp
  from created_ids_count_up [OF ne example_run bound]
  have "map p_id (created example_responses) =
      [Max (p_id ` set example_seed) + 1 ..<
       Max (p_id ` set example_seed) + 1 + length (created example_responses)]"
    by blast
  then have "map p_id (created example_responses) = [4 ..< 6]"
    by (simp only: mx len) simp
  moreover have "[4 ..< 6] = [4, 5::nat]" by (simp add: upt_rec)
  ultimately show ?thesis using ne mx bound by (simp add: example_run)
qed

subsection \<open>Listing\<close>

text \<open>
  Claim C7: \<^verbatim>\<open>GET /pastes\<close> answers 200 with all stored records in insertion order: the
  seed in its order, then the created records in the order of their creation; nothing is
  filtered, reordered or cut.
\<close>

theorem list_is_seed_then_created:
  assumes "serve num reqs (init seed) = (ress, st)"
    and "req_method req = GET"
    and "match_pastes (originalUrl req)"
  shows "app num req st =
           (\<lparr>res_status = 200, res_body = Data_list (seed @ created ress)\<rparr>, st)"
proof -
  from serve_store [OF assms(1)] have "pastes st = seed @ created ress"
    by (simp add: init_def)
  with assms(2,3) show ?thesis
    by (simp add: app_list handles_get_def)
qed

theorem list_is_seed_then_created_witness:
  "app Number_digits \<lparr>req_method = GET, originalUrl = ''/pastes'', req_body = JObj []\<rparr>
      example_store =
     (\<lparr>res_status = 200, res_body = Data_list (example_seed @ created example_responses)\<rparr>,
      example_store)"
proof -
  let ?req = "\<lparr>req_method = GET, originalUrl = ''/pastes'', req_body = JObj []\<rparr>"
  have g: "req_method ?req = GET" by simp
  have m: "match_pastes (originalUrl ?req)" by (simp add: match_pastes_example)
  from list_is_seed_then_created [OF example_run g m] show ?thesis .
qed

text \<open>
  Claim C8: \<^verbatim>\<open>GET /pastes\<close> reads only. It leaves the store as it is; a second call,
  after any requests none of which created a record, gives the same response as the
  first; and the listed array has as many elements as the seed plus the number of 201
  responses so far.
\<close>

theorem list_is_idempotent:
  assumes "serve num reqs (init seed) = (ress, st)"
    and "req_method req = GET"
    and "match_pastes (originalUrl req)"
    and "app num req st = (res1, st1)"
    and "serve num between st1 = (mress, st2)"
    and "\<forall>res \<in> set mress. res_status res \<noteq> 201"
    and "app num req st2 = (res2, st3)"
  shows "st1 = st \<and> st3 = st \<and> res2 = res1 \<and>
         (\<exists>records. res1 = \<lparr>res_status = 200, res_body = Data_list records\<rparr> \<and>
            length records =
              length seed + length (filter (\<lambda>res. res_status res = 201) ress))"
proof -
  from assms(2,3) have l: "\<And>s. app num req s = (\<lparr>res_status = 200, res_body = Data_list (pastes s)\<rparr>, s)"
    by (simp add: app_list handles_get_def)
  from l [of st] assms(4) have r1: "res1 = \<lparr>res_status = 200, res_body = Data_list (pastes st)\<rparr>"
    and s1: "st1 = st" by simp_all
  from serve_without_creation [OF assms(5,6)] s1 have s2: "st2 = st" by simp
  from l [of st2] assms(7) have "res2 = \<lparr>res_status = 200, res_body = Data_list (pastes st2)\<rparr>"
    and "st3 = st2" by simp_all
  with s2 have r2: "res2 = \<lparr>res_status = 200, res_body = Data_list (pastes st)\<rparr>"
    and s3: "st3 = st" by simp_all
  from serve_store [OF assms(1)]
  have "length (pastes st) = length seed + length (filter (\<lambda>res. res_status res = 201) ress)"
    by (simp add: init_def)
  with r1 r2 s1 s3 show ?thesis by simp
qed

theorem list_is_idempotent_witness:
  "filter (\<lambda>res. res_status res = 201) example_between_responses = [] \<and>
   app Number_digits \<lparr>req_method = GET, originalUrl = ''/pastes'', req_body = JObj []\<rparr>
      example_store =
     (\<lparr>res_status = 200, res_body = Data_list (pastes example_store)\<rparr>, example_store) \<and>
   length (pastes example_store) = length example_seed + 2"
proof -
  let ?req = "\<lparr>req_method = GET, originalUrl = ''/pastes'', req_body = JObj []\<rparr>"
  let ?res = "\<lparr>res_status = 200, res_body = Data_list (pastes example_store)\<rparr>"
  have g: "req_method ?req = GET" by simp
  have m: "match_pastes (originalUrl ?req)" by (simp add: match_pastes_example)
  have a: "app Number_digits ?req example_store = (?res, example_store)"
    by (simp add: app_list handles_get_def match_pastes_example)
  have n: "\<forall>res \<in> set example_between_responses. res_status res \<noteq> 201"
    by (simp add: example_between_responses_def)
  have c: "length (filter (\<lambda>res. res_status res = 201) example_responses) = 2"
    by (simp add: example_responses_def)
  from list_is_idempotent [OF example_run g m a example_between_run n a]
  obtain records where "?res = \<lparr>res_status = 200, res_body = Data_list records\<rparr>"
    and "length records =
      length example_seed + length (filter (\<lambda>res. res_status res = 201) example_responses)"
    by blast
  with c have "length (pastes example_store) = length example_seed + 2" by simp
  moreover have "filter (\<lambda>res. res_status res = 201) example_between_responses = []"
    by (simp add: example_between_responses_def)
  ultimately show ?thesis using a by simp
qed

end
